theory Spec2Isabelle
  imports Complex_Main
begin

section \<open>The embedding\<close>

subsection \<open>JavaScript values\<close>

text \<open>
  Strings are lists of characters. Every string the components inspect (card tokens, action
  names, position ids, the text of the stack field) is ASCII, so a character of the model is
  one UTF-16 code unit of the program.
\<close>

text \<open>\<open>s[i]\<close> on a string: the character at that index, \<open>undefined\<close> (here \<open>None\<close>)
  past the end.\<close>

definition char_at :: "string \<Rightarrow> nat \<Rightarrow> char option" where
  "char_at s i = (if i < length s then Some (s ! i) else None)"

subsection \<open>Card.jsx: the Card component and the card universe\<close>

datatype suit_icon = Heart | Diamond | Club | Spade

text \<open>What the component computes before it renders a face: \<open>rank\<close>, \<open>suit\<close>,
  \<open>isRed\<close>, \<open>SuitIcon\<close> and \<open>displayRank\<close>.\<close>

record card_face =
  rank :: "char option"
  suit :: "char option"
  isRed :: bool
  SuitIcon :: suit_icon
  displayRank :: "string option"

datatype card_view = EmptySlot | Face card_face

text \<open>The object literal \<open>{'h': Heart, 'd': Diamond, 'c': Club, 's': Spade}[suit] || Spade\<close>.
  An index that is \<open>undefined\<close> or any other character finds no icon (the properties
  inherited from \<open>Object.prototype\<close> have names longer than one character), and the
  \<open>||\<close> supplies \<open>Spade\<close>.\<close>

definition suit_icon_of :: "char option \<Rightarrow> suit_icon" where
  "suit_icon_of s =
     (if s = Some CHR ''h'' then Heart
      else if s = Some CHR ''d'' then Diamond
      else if s = Some CHR ''c'' then Club
      else Spade)"

text \<open>The prop \<open>card\<close> (here \<open>card_prop\<close>) is a string or is not given (\<open>None\<close>). \<open>!card\<close> holds for a
  missing prop and for the empty string; both render the dashed empty slot.\<close>

definition Card :: "string option \<Rightarrow> card_view" where
  "Card card_prop =
     (case card_prop of
        None \<Rightarrow> EmptySlot
      | Some c \<Rightarrow>
          if c = [] then EmptySlot
          else
            let rank = char_at c 0;
                suit = char_at c 1;
                isRed = (suit = Some CHR ''h'' \<or> suit = Some CHR ''d'');
                icon = suit_icon_of suit;
                displayRank = (if rank = Some CHR ''T'' then Some ''10''
                               else map_option (\<lambda>r. [r]) rank)
            in Face \<lparr>rank = rank, suit = suit, isRed = isRed, SuitIcon = icon,
                      displayRank = displayRank\<rparr>)"

text \<open>\<open>ALL_CARDS\<close>: the two nested \<open>for\<close> loops, suits outside and ranks inside, each
  pushing the template string \<open>rank + suit\<close> onto \<open>cards\<close>.\<close>

definition ranks :: "char list" where
  "ranks = [CHR ''A'', CHR ''K'', CHR ''Q'', CHR ''J'', CHR ''T'', CHR ''9'', CHR ''8'',
            CHR ''7'', CHR ''6'', CHR ''5'', CHR ''4'', CHR ''3'', CHR ''2'']"

definition suits :: "char list" where
  "suits = [CHR ''s'', CHR ''h'', CHR ''d'', CHR ''c'']"

definition ALL_CARDS :: "string list" where
  "ALL_CARDS =
     foldl (\<lambda>cards suit. foldl (\<lambda>cards rank. cards @ [[rank, suit]]) cards ranks) [] suits"

subsection \<open>Object literals and truthiness\<close>

text \<open>The values a property lookup or an API field can hold, as far as the components tell
  them apart.\<close>

datatype js_value =
    JUndefined
  | JNull
  | JBool bool
  | JStr string
  | JFunction string
  | JObject string

text \<open>\<open>ToBoolean\<close>: \<open>undefined\<close>, \<open>null\<close>, \<open>false\<close> and the empty string are falsy;
  functions and objects are truthy.\<close>

fun truthy :: "js_value \<Rightarrow> bool" where
  "truthy JUndefined = False"
| "truthy JNull = False"
| "truthy (JBool b) = b"
| "truthy (JStr s) = (s \<noteq> [])"
| "truthy (JFunction f) = True"
| "truthy (JObject ob) = True"

text \<open>\<open>a || b\<close>: the left operand when it is truthy, the right one otherwise.\<close>

definition js_or :: "js_value \<Rightarrow> js_value \<Rightarrow> js_value" where
  "js_or a b = (if truthy a then a else b)"

text \<open>An object literal inherits from \<open>Object.prototype\<close>: \<open>obj[key]\<close> first looks among
  the literal's own properties and then, for a key that is not one of them, among the
  properties every object inherits. \<open>__proto__\<close> is the accessor that returns the prototype
  object itself.\<close>

definition Object_prototype :: "(string \<times> js_value) list" where
  "Object_prototype =
     [(''constructor'', JFunction ''Object''),
      (''__defineGetter__'', JFunction ''__defineGetter__''),
      (''__defineSetter__'', JFunction ''__defineSetter__''),
      (''hasOwnProperty'', JFunction ''hasOwnProperty''),
      (''__lookupGetter__'', JFunction ''__lookupGetter__''),
      (''__lookupSetter__'', JFunction ''__lookupSetter__''),
      (''isPrototypeOf'', JFunction ''isPrototypeOf''),
      (''propertyIsEnumerable'', JFunction ''propertyIsEnumerable''),
      (''toString'', JFunction ''toString''),
      (''valueOf'', JFunction ''valueOf''),
      (''__proto__'', JObject ''Object.prototype''),
      (''toLocaleString'', JFunction ''toLocaleString'')]"

definition get_property :: "(string \<times> js_value) list \<Rightarrow> string \<Rightarrow> js_value" where
  "get_property own key =
     (case map_of own key of
        Some v \<Rightarrow> v
      | None \<Rightarrow> (case map_of Object_prototype key of Some v \<Rightarrow> v | None \<Rightarrow> JUndefined))"

text \<open>\<open>toLowerCase\<close> and \<open>toUpperCase\<close> on ASCII strings: the 26 letters change case,
  every other character stays. Outside ASCII the program's case mapping does more (the
  letter sharp s becomes \<open>SS\<close>, the Kelvin sign becomes \<open>k\<close>); what is proved of the
  upper-case label below is therefore stated for ASCII action names.\<close>

definition lower_char :: "char \<Rightarrow> char" where
  "lower_char c =
     (let n = (of_char c :: nat) in if 65 \<le> n \<and> n \<le> 90 then char_of (n + 32) else c)"

definition upper_char :: "char \<Rightarrow> char" where
  "upper_char c =
     (let n = (of_char c :: nat) in if 97 \<le> n \<and> n \<le> 122 then char_of (n - 32) else c)"

definition toLowerCase :: "string \<Rightarrow> string" where
  "toLowerCase s = map lower_char s"

definition toUpperCase :: "string \<Rightarrow> string" where
  "toUpperCase s = map upper_char s"

subsection \<open>Advisor.jsx\<close>

text \<open>The response of \<open>/api/analyze-spot\<close>, with the two fields the presentation logic
  below reads: \<open>action\<close> is a string or is missing (\<open>undefined\<close> or \<open>null\<close>, here
  \<open>None\<close>); \<open>found_in_database\<close> is any value.\<close>

record api_result =
  action :: "string option"
  found_in_database :: js_value

definition actionColors :: "(string \<times> js_value) list" where
  "actionColors =
     [(''raise'', JStr ''from-green-600 to-emerald-700 border-green-500''),
      (''all_in'', JStr ''from-orange-600 to-amber-700 border-orange-500''),
      (''call'', JStr ''from-blue-600 to-cyan-700 border-blue-500''),
      (''fold'', JStr ''from-red-900 to-gray-800 border-red-700''),
      (''check'', JStr ''from-gray-600 to-gray-700 border-gray-500'')]"

definition actionLabels :: "(string \<times> js_value) list" where
  "actionLabels =
     [(''raise'', JStr ''RAISE''),
      (''all_in'', JStr ''ALL-IN''),
      (''call'', JStr ''CALL''),
      (''fold'', JStr ''FOLD''),
      (''check'', JStr ''CHECK'')]"

text \<open>\<open>result.action?.toLowerCase() || 'fold'\<close>: a missing action and the empty string
  both give \<open>'fold'\<close>.\<close>

definition action_key :: "api_result \<Rightarrow> string" where
  "action_key r =
     (case action r of
        None \<Rightarrow> ''fold''
      | Some a \<Rightarrow> if toLowerCase a = [] then ''fold'' else toLowerCase a)"

definition colorClass :: "api_result \<Rightarrow> js_value" where
  "colorClass r =
     js_or (get_property actionColors (action_key r)) (get_property actionColors ''fold'')"

definition label :: "api_result \<Rightarrow> js_value" where
  "label r =
     js_or (get_property actionLabels (action_key r))
           (case action r of None \<Rightarrow> JUndefined | Some a \<Rightarrow> JStr (toUpperCase a))"

text \<open>What \<open>Advisor\<close> renders: the pulsing skeleton while loading, the prompt when there is
  no result, otherwise the recommendation panel with its colour class, its label and, under
  the condition \<open>result.found_in_database === false\<close>, the database indicator
  ``Default suggestion (hand not in database)''.\<close>

record advisor_panel =
  panel_colorClass :: js_value
  panel_label :: js_value
  database_indicator :: bool

datatype advisor_view = Skeleton | Prompt | Recommendation advisor_panel

definition Advisor :: "api_result option \<Rightarrow> bool \<Rightarrow> advisor_view" where
  "Advisor result loading =
     (if loading then Skeleton
      else case result of
             None \<Rightarrow> Prompt
           | Some r \<Rightarrow>
               Recommendation
                 \<lparr>panel_colorClass = colorClass r,
                  panel_label = label r,
                  database_indicator = (found_in_database r = JBool False)\<rparr>)"

subsection \<open>Numbers, \<open>ToNumber\<close> and \<open>parseInt\<close>\<close>

text \<open>A JavaScript number is \<open>NaN\<close>, an infinity or a finite value. Finite values are read
  exactly, as rationals: the rounding of a decimal literal to the nearest double is not
  modelled. The model and the program therefore part on texts a double does not hold
  exactly: \<open>0.99999999999999999\<close> is 1 to the program's guard and below 1 here,
  \<open>500.00000000000000001\<close> is 500 to the program and above 500 here, and \<open>parseInt\<close> of an
  integer beyond \<open>2^53\<close> is the nearest double in the program and the integer itself here.
  Every literal evaluated below is an integer of a few digits, which a double holds exactly,
  and what is proved of a stored text in general is stated through the readings
  \<open>stack_number\<close> and \<open>parseInt\<close> of this model.\<close>

datatype js_number = NaN | PosInfinity | NegInfinity | Finite rat

text \<open>\<open>a < b\<close> on numbers; any comparison with \<open>NaN\<close> is false. \<open>a > b\<close> is
  \<open>js_less b a\<close>.\<close>

fun js_less :: "js_number \<Rightarrow> js_number \<Rightarrow> bool" where
  "js_less NaN b = False"
| "js_less a NaN = False"
| "js_less PosInfinity b = False"
| "js_less a NegInfinity = False"
| "js_less NegInfinity b = True"
| "js_less a PosInfinity = True"
| "js_less (Finite x) (Finite y) = (x < y)"

definition is_digit :: "char \<Rightarrow> bool" where
  "is_digit c = (let n = (of_char c :: nat) in 48 \<le> n \<and> n \<le> 57)"

definition is_whitespace :: "char \<Rightarrow> bool" where
  "is_whitespace c = (let n = (of_char c :: nat) in n = 32 \<or> (9 \<le> n \<and> n \<le> 13))"

text \<open>The value of a string of decimal digits, most significant first.\<close>

definition digits_value :: "string \<Rightarrow> nat" where
  "digits_value ds = foldl (\<lambda>acc d. 10 * acc + (of_char d - 48)) 0 ds"

text \<open>A leading sign: \<open>-\<close> gives \<open>-1\<close>, and either sign is removed.\<close>

definition split_sign :: "string \<Rightarrow> int \<times> string" where
  "split_sign s =
     (case s of
        [] \<Rightarrow> (1, [])
      | c # r \<Rightarrow> if c = CHR ''-'' then (- 1, r) else if c = CHR ''+'' then (1, r) else (1, s))"

text \<open>\<open>m * 10^e\<close> for an integer exponent of either sign.\<close>

definition scale10 :: "rat \<Rightarrow> int \<Rightarrow> rat" where
  "scale10 m e = (if 0 \<le> e then m * 10 ^ nat e else m / 10 ^ nat (- e))"

text \<open>The exponent part of a decimal literal: nothing, or \<open>e\<close>/\<open>E\<close>, an optional sign and
  at least one digit up to the end of the string. \<open>None\<close> when the text is neither.\<close>

definition exponent_part :: "string \<Rightarrow> int option" where
  "exponent_part s =
     (case s of
        [] \<Rightarrow> Some 0
      | c # r \<Rightarrow>
          if c = CHR ''e'' \<or> c = CHR ''E'' then
            (let (sg, ds) = split_sign r
             in if ds \<noteq> [] \<and> list_all is_digit ds then Some (sg * int (digits_value ds))
                else None)
          else None)"

text \<open>\<open>ToNumber\<close> applied to a string (the coercion \<open>stackSize < 1\<close> performs on the text
  of the stack field): white space is trimmed; the empty string is \<open>0\<close>; a signed decimal
  literal (\<open>Infinity\<close>, or digits with an optional fraction and exponent, at least one digit
  before or after the point) is its value; anything else is \<open>NaN\<close>. The field is an
  \<open>input type="number"\<close>, whose value is the empty string or a decimal literal, so the
  hexadecimal, octal and binary literals of \<open>ToNumber\<close> are not modelled.\<close>

definition trim :: "string \<Rightarrow> string" where
  "trim s = rev (dropWhile is_whitespace (rev (dropWhile is_whitespace s)))"

definition string_to_number :: "string \<Rightarrow> js_number" where
  "string_to_number s =
     (let t = trim s in
      if t = [] then Finite 0
      else
        let (sg, u) = split_sign t in
        if u = ''Infinity'' then (if sg < 0 then NegInfinity else PosInfinity)
        else
          let ip = takeWhile is_digit u;
              r1 = dropWhile is_digit u;
              fp = (case r1 of [] \<Rightarrow> []
                    | c # r \<Rightarrow> if c = CHR ''.'' then takeWhile is_digit r else []);
              r2 = (case r1 of [] \<Rightarrow> []
                    | c # r \<Rightarrow> if c = CHR ''.'' then dropWhile is_digit r else r1)
          in if ip = [] \<and> fp = [] then NaN
             else case exponent_part r2 of
                    None \<Rightarrow> NaN
                  | Some e \<Rightarrow>
                      Finite (of_int sg *
                        scale10 (of_nat (digits_value (ip @ fp))) (e - int (length fp))))"

text \<open>\<open>parseInt(string, 10)\<close>: leading white space is skipped, a sign is read, and the
  longest run of decimal digits that follows is the value; what comes after the digits is
  ignored, and no digit at all gives \<open>NaN\<close>.\<close>

definition parse_int_string :: "string \<Rightarrow> js_number" where
  "parse_int_string s =
     (let (sg, u) = split_sign (dropWhile is_whitespace s);
          ds = takeWhile is_digit u
      in if ds = [] then NaN else Finite (of_int (sg * int (digits_value ds))))"

subsection \<open>PokerTable.jsx\<close>

record position =
  pos_id :: string
  pos_label :: string
  pos_angle :: int

definition TABLE_CONFIGS :: "(string \<times> position list) list" where
  "TABLE_CONFIGS =
     [(''6-max'',
       [\<lparr>pos_id = ''BTN'', pos_label = ''BTN'', pos_angle = 270\<rparr>,
        \<lparr>pos_id = ''SB'', pos_label = ''SB'', pos_angle = 210\<rparr>,
        \<lparr>pos_id = ''BB'', pos_label = ''BB'', pos_angle = 150\<rparr>,
        \<lparr>pos_id = ''UTG'', pos_label = ''UTG'', pos_angle = 90\<rparr>,
        \<lparr>pos_id = ''MP'', pos_label = ''MP'', pos_angle = 30\<rparr>,
        \<lparr>pos_id = ''CO'', pos_label = ''CO'', pos_angle = 330\<rparr>]),
      (''9-max'',
       [\<lparr>pos_id = ''BTN'', pos_label = ''BTN'', pos_angle = 270\<rparr>,
        \<lparr>pos_id = ''SB'', pos_label = ''SB'', pos_angle = 230\<rparr>,
        \<lparr>pos_id = ''BB'', pos_label = ''BB'', pos_angle = 190\<rparr>,
        \<lparr>pos_id = ''UTG'', pos_label = ''UTG'', pos_angle = 150\<rparr>,
        \<lparr>pos_id = ''UTG1'', pos_label = ''UTG+1'', pos_angle = 110\<rparr>,
        \<lparr>pos_id = ''MP'', pos_label = ''MP'', pos_angle = 70\<rparr>,
        \<lparr>pos_id = ''MP1'', pos_label = ''MP+1'', pos_angle = 30\<rparr>,
        \<lparr>pos_id = ''CO'', pos_label = ''CO'', pos_angle = 350\<rparr>,
        \<lparr>pos_id = ''HJ'', pos_label = ''HJ'', pos_angle = 310\<rparr>]),
      (''heads-up'',
       [\<lparr>pos_id = ''BTN'', pos_label = ''BTN/SB'', pos_angle = 270\<rparr>,
        \<lparr>pos_id = ''BB'', pos_label = ''BB'', pos_angle = 90\<rparr>])]"

text \<open>The value of the stack field: the number \<open>useState(100)\<close> and the preset buttons
  (20, 50, 100) store, or the text \<open>e.target.value\<close> the \<open>onChange\<close> of the input stores.\<close>

datatype stack_value = StackNumber int | StackText string

text \<open>The component's state (its \<open>useState\<close> cells).\<close>

record table_state =
  tableSize :: string
  heroCards :: "string list"
  heroPosition :: string
  villainPosition :: string
  stackSize :: stack_value
  scenarioMode :: string
  showCardSelector :: bool
  result :: "api_result option"
  loading :: bool
  error :: "string option"

definition initial_state :: table_state where
  "initial_state =
     \<lparr>tableSize = ''6-max'', heroCards = [], heroPosition = ''BTN'', villainPosition = ''BB'',
      stackSize = StackNumber 100, scenarioMode = ''rfi'', showCardSelector = False,
      result = None, loading = False, error = None\<rparr>"

text \<open>\<open>TABLE_CONFIGS[tableSize]?.positions || TABLE_CONFIGS['6-max'].positions\<close>. A key
  that is no table size is \<open>undefined\<close> or an inherited property without \<open>positions\<close>;
  both fall back to the 6-max list.\<close>

definition positions :: "string \<Rightarrow> position list" where
  "positions table =
     (case map_of TABLE_CONFIGS table of
        Some ps \<Rightarrow> ps
      | None \<Rightarrow> (case map_of TABLE_CONFIGS ''6-max'' of Some ps \<Rightarrow> ps | None \<Rightarrow> []))"

text \<open>The options of the villain select: \<open>positions.filter(p => p.id !== heroPosition)\<close>.\<close>

definition villain_options :: "table_state \<Rightarrow> position list" where
  "villain_options s = filter (\<lambda>p. pos_id p \<noteq> heroPosition s) (positions (tableSize s))"

datatype js_error = TypeError

text \<open>\<open>newPositions.find(p => p.id === x)\<close> is used only negated: it is falsy exactly when
  no entry has that id.\<close>

definition has_position :: "position list \<Rightarrow> string \<Rightarrow> bool" where
  "has_position ps x = (find (\<lambda>p. pos_id p = x) ps \<noteq> None)"

text \<open>The two resets of \<open>handleTableSizeChange\<close>, on the new table's list.
  \<open>newPositions[0].id\<close> throws on an empty list; \<open>newPositions[1]?.id || newPositions[0].id\<close>
  is the second entry's id unless there is no second entry or its id is the empty string.
  Both tests read the hero and villain position of the render in which the handler was
  created, that is of the state before the change.\<close>

definition reset_hero :: "position list \<Rightarrow> table_state \<Rightarrow> js_error + table_state" where
  "reset_hero newPositions s =
     (if \<not> has_position newPositions (heroPosition s) then
        (case newPositions of
           [] \<Rightarrow> Inl TypeError
         | p # rest \<Rightarrow> Inr (s\<lparr>heroPosition := pos_id p\<rparr>))
      else Inr s)"

definition reset_villain :: "position list \<Rightarrow> string \<Rightarrow> table_state \<Rightarrow> js_error + table_state" where
  "reset_villain newPositions villain s =
     (if \<not> has_position newPositions villain then
        (case newPositions of
           [] \<Rightarrow> Inl TypeError
         | [p] \<Rightarrow> Inr (s\<lparr>villainPosition := pos_id p\<rparr>)
         | p # q # rest \<Rightarrow>
             Inr (s\<lparr>villainPosition := (if pos_id q \<noteq> [] then pos_id q else pos_id p)\<rparr>))
      else Inr s)"

definition reset_positions :: "position list \<Rightarrow> table_state \<Rightarrow> js_error + table_state" where
  "reset_positions newPositions s =
     (case reset_hero newPositions s of
        Inl e \<Rightarrow> Inl e
      | Inr s1 \<Rightarrow> reset_villain newPositions (villainPosition s) s1)"

text \<open>\<open>handleTableSizeChange\<close>. \<open>TABLE_CONFIGS[newSize].positions\<close> followed by
  \<open>.find\<close> throws a \<open>TypeError\<close> for a key that is not a table size.\<close>

definition handleTableSizeChange :: "string \<Rightarrow> table_state \<Rightarrow> js_error + table_state" where
  "handleTableSizeChange newSize s =
     (case map_of TABLE_CONFIGS newSize of
        None \<Rightarrow> Inl TypeError
      | Some newPositions \<Rightarrow> reset_positions newPositions (s\<lparr>tableSize := newSize\<rparr>))"

text \<open>The request \<open>analyzeSpot\<close> posts and what the call comes back with: the response
  data, or a failure carrying \<open>err.response?.data?.detail\<close> when there is one.\<close>

record spot_request =
  hero_position :: string
  villain_position :: string
  stack :: js_number
  hand :: "string list"

datatype api_outcome = Resolved api_result | Rejected "string option"

text \<open>\<open>stackSize < 1 || stackSize > 500\<close> compares numbers: a stored number as it is, a
  stored text after \<open>ToNumber\<close>.\<close>

definition stack_number :: "stack_value \<Rightarrow> js_number" where
  "stack_number v =
     (case v of StackNumber n \<Rightarrow> Finite (of_int n) | StackText t \<Rightarrow> string_to_number t)"

text \<open>\<open>parseInt(stackSize, 10)\<close>. A stored number is first printed; the numbers the component
  stores are 20, 50 and 100, which print as their digits and parse back to themselves.\<close>

definition parseInt :: "stack_value \<Rightarrow> js_number" where
  "parseInt v =
     (case v of StackNumber n \<Rightarrow> Finite (of_int n) | StackText t \<Rightarrow> parse_int_string t)"

text \<open>\<open>handleAnalyze\<close>, run to the end of its \<open>finally\<close>. The first argument is the
  backend: what \<open>analyzeSpot\<close> answers to a request. The result is the state the handler
  leaves and the list of requests it issued.\<close>

definition handleAnalyze ::
  "(spot_request \<Rightarrow> api_outcome) \<Rightarrow> table_state \<Rightarrow> table_state \<times> spot_request list" where
  "handleAnalyze analyzeSpot s =
     (if length (heroCards s) \<noteq> 2 then (s\<lparr>error := Some ''Please select 2 cards''\<rparr>, [])
      else if js_less (stack_number (stackSize s)) (Finite 1)
              \<or> js_less (Finite 500) (stack_number (stackSize s))
      then (s\<lparr>error := Some ''Stack must be between 1 and 500 BB''\<rparr>, [])
      else
        let request =
              \<lparr>hero_position = heroPosition s,
               villain_position = (if scenarioMode s = ''rfi'' then ''BB'' else villainPosition s),
               stack = parseInt (stackSize s),
               hand = heroCards s\<rparr>
        in case analyzeSpot request of
             Resolved response \<Rightarrow>
               (s\<lparr>loading := False, error := None, result := Some response\<rparr>, [request])
           | Rejected detail \<Rightarrow>
               (s\<lparr>loading := False,
                  error := Some (case detail of
                                   None \<Rightarrow> ''Analysis failed''
                                 | Some d \<Rightarrow> if d = [] then ''Analysis failed'' else d)\<rparr>,
                [request]))"

text \<open>The earlier revision of the component (one fixed table, three stack buttons): its
  \<open>handleAnalyze\<close> has the card check only and sends the stored stack as it is.\<close>

definition handleAnalyze_v1 ::
  "(spot_request \<Rightarrow> api_outcome) \<Rightarrow> table_state \<Rightarrow> table_state \<times> spot_request list" where
  "handleAnalyze_v1 analyzeSpot s =
     (if length (heroCards s) \<noteq> 2 then (s\<lparr>error := Some ''Please select 2 cards''\<rparr>, [])
      else
        let request =
              \<lparr>hero_position = heroPosition s,
               villain_position = villainPosition s,
               stack = stack_number (stackSize s),
               hand = heroCards s\<rparr>
        in case analyzeSpot request of
             Resolved response \<Rightarrow>
               (s\<lparr>loading := False, error := None, result := Some response\<rparr>, [request])
           | Rejected detail \<Rightarrow>
               (s\<lparr>loading := False,
                  error := Some (case detail of
                                   None \<Rightarrow> ''Analysis failed''
                                 | Some d \<Rightarrow> if d = [] then ''Analysis failed'' else d)\<rparr>,
                [request]))"

subsection \<open>CardSelectorModal.jsx\<close>

record modal_props =
  selectedCards :: "string list"
  disabledCards :: "string list"
  maxCards :: int

text \<open>The modal's own state is \<open>tempSelection\<close>; \<open>isOpen\<close> is the prop its parent
  controls (\<open>showCardSelector\<close>), kept beside it because a closed modal renders nothing
  and so takes no click.\<close>

record modal_state =
  isOpen :: bool
  tempSelection :: "string list"

text \<open>\<open>useState(selectedCards)\<close>: the selection starts as the prop of the first render.\<close>

definition mount :: "modal_props \<Rightarrow> bool \<Rightarrow> modal_state" where
  "mount props opened = \<lparr>isOpen = opened, tempSelection = selectedCards props\<rparr>"

definition handleCardClick :: "modal_props \<Rightarrow> string list \<Rightarrow> string \<Rightarrow> string list" where
  "handleCardClick props selection c =
     (if c \<in> set (disabledCards props) then selection
      else if c \<in> set selection then filter (\<lambda>x. x \<noteq> c) selection
      else if int (length selection) < maxCards props then selection @ [c]
      else selection)"

text \<open>What the user can do, and the callbacks of the parent a click fires.\<close>

datatype modal_event = OpenModal | ClickCard string | ClickClear | ClickConfirm | ClickClose

datatype callback = OnSelect "string list" | OnClose

text \<open>One event. The confirm button carries \<open>disabled={tempSelection.length !== maxCards}\<close>,
  and a disabled button fires no click; otherwise \<open>handleConfirm\<close> calls \<open>onSelect\<close> with
  the selection and then \<open>onClose\<close>. The cancel button and the X call \<open>onClose\<close>. The
  parent's \<open>onClose\<close> sets \<open>isOpen\<close> to false, its seat click sets it to true.\<close>

definition modal_step :: "modal_props \<Rightarrow> modal_state \<Rightarrow> modal_event \<Rightarrow> modal_state \<times> callback list" where
  "modal_step props s ev =
     (if \<not> isOpen s then
        (case ev of OpenModal \<Rightarrow> (s\<lparr>isOpen := True\<rparr>, []) | _ \<Rightarrow> (s, []))
      else
        (case ev of
           OpenModal \<Rightarrow> (s, [])
         | ClickCard c \<Rightarrow> (s\<lparr>tempSelection := handleCardClick props (tempSelection s) c\<rparr>, [])
         | ClickClear \<Rightarrow> (s\<lparr>tempSelection := []\<rparr>, [])
         | ClickConfirm \<Rightarrow>
             if int (length (tempSelection s)) \<noteq> maxCards props then (s, [])
             else (s\<lparr>isOpen := False\<rparr>, [OnSelect (tempSelection s), OnClose])
         | ClickClose \<Rightarrow> (s\<lparr>isOpen := False\<rparr>, [OnClose])))"

text \<open>A sequence of events, with the callbacks fired along the way in order.\<close>

fun modal_run :: "modal_props \<Rightarrow> modal_state \<Rightarrow> modal_event list \<Rightarrow> modal_state \<times> callback list" where
  "modal_run props s [] = (s, [])"
| "modal_run props s (ev # evs) =
     (let (s1, fired) = modal_step props s ev;
          (s2, later) = modal_run props s1 evs
      in (s2, fired @ later))"

text \<open>A well-formed selection: no token twice, no disabled token, at most \<open>maxCards\<close>
  tokens.\<close>

definition selection_ok :: "modal_props \<Rightarrow> string list \<Rightarrow> bool" where
  "selection_ok props selection \<longleftrightarrow>
     distinct selection \<and> set selection \<inter> set (disabledCards props) = {} \<and>
     int (length selection) \<le> maxCards props"

subsection \<open>The equity engine\<close>

text \<open>The repository holds the client of the equity route (\<open>calculateEquity\<close> posts
  \<open>{hero_hand, villain_hand, board}\<close> to \<open>/equity\<close>) and the route's name in the backend's
  README, but not the engine behind it. The definitions of this subsection follow the
  specification's sections 3, 4, 6 and 7 instead.\<close>

text \<open>Modelled from the spec: the Card of section 3, missing from the sources: a rank
  (ordinal 2 to 14, the ace high) and one of four suits.\<close>

datatype card_suit = Spades | Hearts | Diamonds | Clubs

type_synonym playing_card = "nat \<times> card_suit"

text \<open>Modelled from the spec: the card tokens of section 6, whose parser is missing from
  the sources: a rank character out of 2 to 9, T, J, Q, K, A, then a suit character out of
  s, h, d, c; any other token is malformed.\<close>

definition rank_of_char :: "char \<Rightarrow> nat option" where
  "rank_of_char c =
     (if c = CHR ''A'' then Some 14 else if c = CHR ''K'' then Some 13
      else if c = CHR ''Q'' then Some 12 else if c = CHR ''J'' then Some 11
      else if c = CHR ''T'' then Some 10
      else if is_digit c \<and> 2 \<le> (of_char c :: nat) - 48 then Some (of_char c - 48)
      else None)"

definition suit_of_char :: "char \<Rightarrow> card_suit option" where
  "suit_of_char c =
     (if c = CHR ''s'' then Some Spades else if c = CHR ''h'' then Some Hearts
      else if c = CHR ''d'' then Some Diamonds else if c = CHR ''c'' then Some Clubs
      else None)"

definition parse_card :: "string \<Rightarrow> playing_card option" where
  "parse_card token =
     (case token of
        [r, s] \<Rightarrow>
          (case rank_of_char r of
             None \<Rightarrow> None
           | Some rk \<Rightarrow> (case suit_of_char s of None \<Rightarrow> None | Some st \<Rightarrow> Some (rk, st)))
      | _ \<Rightarrow> None)"

text \<open>Modelled from the spec: the request of section 6 (the hands, each a list of card
  tokens, and the board) and its configuration (the exactness threshold and the sample
  count of section 4.4); their declarations are missing from the sources.\<close>

record equity_request =
  hands :: "string list list"
  board :: "string list"

record engine_config =
  exactness_threshold :: nat
  sample_count :: nat

text \<open>Modelled from the spec: the error taxonomy of section 7, missing from the sources.\<close>

datatype input_error =
    MalformedCardError
  | DuplicateCardError
  | InvalidHandSizeError
  | InvalidBoardSizeError
  | InsufficientDeckError

text \<open>Modelled from the spec: the deck of sections 3 and 4.1, missing from the sources: the
  52-card universe, and the drawable pool that is left when the dead cards (all hole cards
  and the known board cards) are removed.\<close>

definition full_deck :: "playing_card list" where
  "full_deck = concat (map (\<lambda>st. map (\<lambda>rk. (rk, st)) [2..<15]) [Spades, Hearts, Diamonds, Clubs])"

definition remaining_pool :: "playing_card list \<Rightarrow> playing_card list" where
  "remaining_pool dead = filter (\<lambda>c. c \<notin> set dead) full_deck"

text \<open>Modelled from the spec: the validation of sections 4.1 and 7, missing from the
  sources: a hand that does not have exactly two cards, a board whose size is not 0, 3, 4 or
  5, a malformed token, a card named twice across hands and board, and a pool too small to
  complete the board are each an error, found before any enumeration. An accepted request
  comes back parsed.\<close>

definition validate ::
  "equity_request \<Rightarrow> input_error + (playing_card list list \<times> playing_card list)" where
  "validate req =
     (if list_ex (\<lambda>h. length h \<noteq> 2) (hands req) then Inl InvalidHandSizeError
      else if length (board req) \<notin> {0, 3, 4, 5} then Inl InvalidBoardSizeError
      else case those (map (\<lambda>h. those (map parse_card h)) (hands req)) of
             None \<Rightarrow> Inl MalformedCardError
           | Some hs \<Rightarrow>
               (case those (map parse_card (board req)) of
                  None \<Rightarrow> Inl MalformedCardError
                | Some b \<Rightarrow>
                    if \<not> distinct (concat hs @ b) then Inl DuplicateCardError
                    else if length (remaining_pool (concat hs @ b)) < 5 - length b
                    then Inl InsufficientDeckError
                    else Inr (hs, b)))"

text \<open>Modelled from the spec: the enumeration of board completions of section 4.3, missing
  from the sources: every way to draw \<open>k\<close> cards from the pool without replacement, the
  order of the draw not counting.\<close>

fun combinations :: "nat \<Rightarrow> 'a list \<Rightarrow> 'a list list" where
  "combinations 0 xs = [[]]"
| "combinations (Suc k) [] = []"
| "combinations (Suc k) (x # xs) = map ((#) x) (combinations k xs) @ combinations (Suc k) xs"

text \<open>Modelled from the spec: the HandRank of section 3, missing from the sources: one of
  nine categories, strictly ordered by strength, and the tiebreak ranks in order of
  significance. Two hand ranks are equal when category and every tiebreak rank match.\<close>

datatype category =
    HighCard | OnePair | TwoPair | ThreeOfAKind | Straight | Flush | FullHouse | FourOfAKind
  | StraightFlush

type_synonym hand_rank = "category \<times> nat list"

fun strength :: "category \<Rightarrow> nat" where
  "strength HighCard = 0"
| "strength OnePair = 1"
| "strength TwoPair = 2"
| "strength ThreeOfAKind = 3"
| "strength Straight = 4"
| "strength Flush = 5"
| "strength FullHouse = 6"
| "strength FourOfAKind = 7"
| "strength StraightFlush = 8"

fun lex_less :: "nat list \<Rightarrow> nat list \<Rightarrow> bool" where
  "lex_less [] [] = False"
| "lex_less [] (y # ys) = True"
| "lex_less (x # xs) [] = False"
| "lex_less (x # xs) (y # ys) = (x < y \<or> (x = y \<and> lex_less xs ys))"

definition rank_less :: "hand_rank \<Rightarrow> hand_rank \<Rightarrow> bool" where
  "rank_less a b \<longleftrightarrow>
     strength (fst a) < strength (fst b) \<or> (fst a = fst b \<and> lex_less (snd a) (snd b))"

text \<open>Modelled from the spec: the maximum HandRank of a list, used by the evaluator and the
  showdown of sections 4.2 and 4.3, missing from the sources. The fold starts below every
  rank an evaluation returns.\<close>

definition best_rank :: "hand_rank list \<Rightarrow> hand_rank" where
  "best_rank rs = foldl (\<lambda>a b. if rank_less a b then b else a) (HighCard, []) rs"

text \<open>Modelled from the spec: the evaluator of section 4.2 on exactly five cards, missing
  from the sources. The ranks are sorted downwards; a straight is five distinct ranks
  spanning four steps, or the wheel A-2-3-4-5, which counts as five high; the tiebreak of
  a hand with repeated ranks lists the ranks by multiplicity first, then downwards.\<close>

definition straight_high :: "nat list \<Rightarrow> nat option" where
  "straight_high rs =
     (if rs = [14, 5, 4, 3, 2] then Some 5
      else if length rs = 5 \<and> distinct rs \<and> hd rs = last rs + 4 then Some (hd rs)
      else None)"

definition evaluate5 :: "playing_card list \<Rightarrow> hand_rank" where
  "evaluate5 cs =
     (let rs = rev (sort (map fst cs));
          is_flush = (case cs of [] \<Rightarrow> False | c # rest \<Rightarrow> list_all (\<lambda>d. snd d = snd c) rest);
          grouped = concat (map (\<lambda>n. filter (\<lambda>r. count_list rs r = n) (remdups rs)) [4, 3, 2, 1]);
          shape = map (count_list rs) grouped
      in case straight_high rs of
           Some high \<Rightarrow> if is_flush then (StraightFlush, [high]) else (Straight, [high])
         | None \<Rightarrow>
             if shape = [4, 1] then (FourOfAKind, grouped)
             else if shape = [3, 2] then (FullHouse, grouped)
             else if is_flush then (Flush, rs)
             else if shape = [3, 1, 1] then (ThreeOfAKind, grouped)
             else if shape = [2, 2, 1] then (TwoPair, grouped)
             else if shape = [2, 1, 1, 1] then (OnePair, grouped)
             else (HighCard, rs))"

text \<open>Modelled from the spec: the evaluator of section 4.2 on five, six or seven cards,
  missing from the sources: the maximum HandRank over all five-card subsets.\<close>

definition evaluate :: "playing_card list \<Rightarrow> hand_rank" where
  "evaluate cs = best_rank (map evaluate5 (combinations 5 cs))"

text \<open>Modelled from the spec: the showdown of section 4.3, missing from the sources: on a
  complete board every hand's best HandRank is computed; the hands holding the maximum are
  the winners; a sole winner wins, several winners tie, every other hand loses.\<close>

datatype outcome = Win | Tie | Loss

definition showdown :: "playing_card list list \<Rightarrow> playing_card list \<Rightarrow> outcome list" where
  "showdown hs full_board =
     (let ranked = map (\<lambda>h. evaluate (h @ full_board)) hs;
          best = best_rank ranked;
          winners = count_list ranked best
      in map (\<lambda>r. if r = best then (if winners = 1 then Win else Tie) else Loss) ranked)"

text \<open>Modelled from the spec: the EquityResult of section 3, missing from the sources: the
  win, tie and loss counts of one hand, the total of trials and the exactness flag. (The
  fractional share of a tie is derived from these counts and is not part of them.)\<close>

record equity_result =
  wins :: nat
  ties :: nat
  losses :: nat
  total_trials :: nat
  is_exact :: bool

definition tally :: "bool \<Rightarrow> outcome list \<Rightarrow> equity_result" where
  "tally ex os =
     \<lparr>wins = count_list os Win, ties = count_list os Tie, losses = count_list os Loss,
      total_trials = length os, is_exact = ex\<rparr>"

text \<open>Modelled from the spec: the per-hand output of section 6, missing from the sources:
  each count divided by the number of trials. The probabilities are exact rationals here;
  the rounding of the three quotients to floating point is what the specification's
  tolerance allows for, and is not modelled. The specification does not say what is
  reported for zero trials; the quotient by zero is 0 here.\<close>

record hand_equity =
  win_probability :: rat
  tie_probability :: rat
  lose_probability :: rat
  exact :: bool
  trials :: nat

definition report :: "equity_result \<Rightarrow> hand_equity" where
  "report r =
     \<lparr>win_probability = of_nat (wins r) / of_nat (total_trials r),
      tie_probability = of_nat (ties r) / of_nat (total_trials r),
      lose_probability = of_nat (losses r) / of_nat (total_trials r),
      exact = is_exact r,
      trials = total_trials r\<rparr>"

text \<open>Modelled from the spec: the equity engine of section 4.3 with the strategy selector
  of section 4.4, missing from the sources. The request is validated; the number of
  completions is the binomial coefficient of pool size and open board slots; up to the
  threshold every completion is evaluated and the result is exact, beyond it
  \<open>sample_count\<close> completions are drawn, the \<open>i\<close>-th being the one the random source
  \<open>draw\<close> picks among all completions; each hand's outcomes over the trials are tallied
  and reported.\<close>

definition equity_engine ::
  "engine_config \<Rightarrow> (nat \<Rightarrow> nat) \<Rightarrow> equity_request \<Rightarrow> input_error + hand_equity list" where
  "equity_engine cfg draw req =
     (case validate req of
        Inl e \<Rightarrow> Inl e
      | Inr (hs, b) \<Rightarrow>
          let pool = remaining_pool (concat hs @ b);
              slots = 5 - length b;
              ex = ((length pool choose slots) \<le> exactness_threshold cfg);
              every = combinations slots pool;
              completions =
                (if ex then every
                 else map (\<lambda>i. every ! (draw i mod length every)) [0..<sample_count cfg]);
              outcomes = map (\<lambda>c. showdown hs (b @ c)) completions
          in Inr (map (\<lambda>i. report (tally ex (map (\<lambda>os. os ! i) outcomes)))
                      [0..<length hs]))"

section \<open>Properties\<close>

subsection \<open>The card universe\<close>

lemma ALL_CARDS_unfolded:
  "ALL_CARDS =
     [''As'', ''Ks'', ''Qs'', ''Js'', ''Ts'', ''9s'', ''8s'', ''7s'', ''6s'', ''5s'', ''4s'', ''3s'', ''2s'',
      ''Ah'', ''Kh'', ''Qh'', ''Jh'', ''Th'', ''9h'', ''8h'', ''7h'', ''6h'', ''5h'', ''4h'', ''3h'', ''2h'',
      ''Ad'', ''Kd'', ''Qd'', ''Jd'', ''Td'', ''9d'', ''8d'', ''7d'', ''6d'', ''5d'', ''4d'', ''3d'', ''2d'',
      ''Ac'', ''Kc'', ''Qc'', ''Jc'', ''Tc'', ''9c'', ''8c'', ''7c'', ''6c'', ''5c'', ''4c'', ''3c'', ''2c'']"
  by (simp add: ALL_CARDS_def ranks_def suits_def)

lemma pair_tokens_image:
  "{[r, s] | r s. r \<in> A \<and> s \<in> B} = (\<lambda>(r, s). [r, s]) ` (A \<times> B)"
  by auto

text \<open>Claim C2. \<open>ALL_CARDS\<close> holds 52 pairwise distinct tokens of two characters each, and
  its tokens are exactly the strings made of one rank character out of
  A, K, Q, J, T, 9, 8, 7, 6, 5, 4, 3, 2 followed by one suit character out of s, h, d, c.\<close>

theorem ALL_CARDS_universe:
  "length ALL_CARDS = 52 \<and> distinct ALL_CARDS \<and>
   list_all (\<lambda>c. length c = 2) ALL_CARDS \<and>
   set ALL_CARDS =
     {[r, s] | r s. r \<in> set ''AKQJT98765432'' \<and> s \<in> set ''shdc''}"
proof -
  have len: "length ALL_CARDS = 52" unfolding ALL_CARDS_unfolded by simp
  have dist: "distinct ALL_CARDS" unfolding ALL_CARDS_unfolded by simp
  have two: "list_all (\<lambda>c. length c = 2) ALL_CARDS" unfolding ALL_CARDS_unfolded by simp
  have "(\<lambda>(r, s). [r, s]) ` (set ''AKQJT98765432'' \<times> set ''shdc'') = set ALL_CARDS"
    unfolding ALL_CARDS_unfolded by (simp add: insert_commute)
  then have "set ALL_CARDS = {[r, s] | r s. r \<in> set ''AKQJT98765432'' \<and> s \<in> set ''shdc''}"
    unfolding pair_tokens_image by (rule sym)
  then show ?thesis using len dist two by blast
qed

subsection \<open>The Card component\<close>

text \<open>Claim C7. For a non-empty token the component renders a face whose rank is the first
  character and whose suit is the second (none when the token has a single character); the
  rank \<open>T\<close> is displayed as \<open>10\<close> and every other rank as itself; the face is red exactly
  when the suit character is \<open>h\<close> or \<open>d\<close>.\<close>

theorem Card_face:
  assumes "c \<noteq> []"
  shows "\<exists>f. Card (Some c) = Face f \<and>
             rank f = Some (c ! 0) \<and>
             suit f = (if 1 < length c then Some (c ! 1) else None) \<and>
             displayRank f = Some (if c ! 0 = CHR ''T'' then ''10'' else [c ! 0]) \<and>
             (isRed f \<longleftrightarrow> 1 < length c \<and> (c ! 1 = CHR ''h'' \<or> c ! 1 = CHR ''d''))"
  using assms by (auto simp: Card_def char_at_def Let_def)

theorem Card_face_witness:
  "''Td'' \<noteq> [] \<and>
   Card (Some ''Td'') =
     Face \<lparr>rank = Some CHR ''T'', suit = Some CHR ''d'', isRed = True, SuitIcon = Diamond,
           displayRank = Some ''10''\<rparr>"
proof -
  have h: "''Td'' \<noteq> []" by simp
  have e: "Card (Some ''Td'') =
     Face \<lparr>rank = Some CHR ''T'', suit = Some CHR ''d'', isRed = True, SuitIcon = Diamond,
           displayRank = Some ''10''\<rparr>"
    by (simp add: Card_def char_at_def suit_icon_of_def)
  from Card_face[OF h] e h show ?thesis by blast
qed

subsection \<open>The card selector\<close>

lemma filter_length_bound:
  "int (length sel) \<le> m \<Longrightarrow> int (length (filter P sel)) \<le> m"
  by (rule order_trans[of _ "int (length sel)"]) simp_all

lemma handleCardClick_ok:
  "selection_ok props sel \<Longrightarrow> selection_ok props (handleCardClick props sel c)"
  unfolding selection_ok_def handleCardClick_def
  by (auto simp: filter_length_bound)

lemma empty_selection_ok: "0 \<le> maxCards props \<Longrightarrow> selection_ok props []"
  by (simp add: selection_ok_def)

lemma modal_step_ok:
  assumes "selection_ok props (tempSelection s)"
  shows "selection_ok props (tempSelection (fst (modal_step props s ev)))"
  using assms handleCardClick_ok[OF assms]
  by (cases ev) (auto simp: modal_step_def selection_ok_def)

lemma modal_step_fires:
  assumes "selection_ok props (tempSelection s)"
    and "OnSelect h \<in> set (snd (modal_step props s ev))"
  shows "h = tempSelection s \<and> int (length h) = maxCards props"
  using assms by (cases ev) (auto simp: modal_step_def split: if_splits)

lemma modal_run_ok:
  assumes "selection_ok props (tempSelection s)"
  shows "selection_ok props (tempSelection (fst (modal_run props s evs))) \<and>
         (\<forall>h. OnSelect h \<in> set (snd (modal_run props s evs)) \<longrightarrow>
              selection_ok props h \<and> int (length h) = maxCards props)"
  using assms
proof (induction evs arbitrary: s)
  case Nil
  then show ?case by simp
next
  case (Cons ev evs)
  let ?s1 = "fst (modal_step props s ev)"
  have ok1: "selection_ok props (tempSelection ?s1)"
    using modal_step_ok[OF Cons.prems] .
  note ih = Cons.IH[OF ok1]
  have fired: "\<And>h. OnSelect h \<in> set (snd (modal_step props s ev)) \<Longrightarrow>
      selection_ok props h \<and> int (length h) = maxCards props"
    using modal_step_fires[OF Cons.prems] Cons.prems by blast
  show ?case using ih fired
    by (auto simp: case_prod_beta Let_def)
qed

text \<open>Claim C1. The modal starts from the \<open>selectedCards\<close> it is mounted with; PokerTable
  mounts it with its still empty \<open>heroCards\<close> and \<open>maxCards = 2\<close>. When that starting
  selection is well formed (no duplicate, no disabled card, at most \<open>maxCards\<close> cards, as the
  empty one is), then after every sequence of clicks (cards, clear, confirm, close, reopen)
  the temporary selection has no duplicate token, holds no disabled card and has at most
  \<open>maxCards\<close> cards; and every hand \<open>onSelect\<close> was called with along the way has exactly
  \<open>maxCards\<close> cards, all distinct and none disabled. The sequence is arbitrary, so this
  holds after each of its prefixes, that is at every moment.\<close>

theorem selector_selection_invariant:
  assumes "selection_ok props (selectedCards props)"
  shows "distinct (tempSelection (fst (modal_run props (mount props opened) evs))) \<and>
         set (tempSelection (fst (modal_run props (mount props opened) evs)))
           \<inter> set (disabledCards props) = {} \<and>
         int (length (tempSelection (fst (modal_run props (mount props opened) evs))))
           \<le> maxCards props \<and>
         (\<forall>h. OnSelect h \<in> set (snd (modal_run props (mount props opened) evs)) \<longrightarrow>
              int (length h) = maxCards props \<and> distinct h \<and>
              set h \<inter> set (disabledCards props) = {})"
proof -
  have start: "selection_ok props (tempSelection (mount props opened))"
    using assms by (simp add: mount_def)
  show ?thesis
    using modal_run_ok[OF start, of evs] by (auto simp: selection_ok_def)
qed

theorem selector_selection_invariant_witness:
  "selection_ok \<lparr>selectedCards = [], disabledCards = [''Qs''], maxCards = 2\<rparr>
     (selectedCards \<lparr>selectedCards = [], disabledCards = [''Qs''], maxCards = 2\<rparr>) \<and>
   modal_run \<lparr>selectedCards = [], disabledCards = [''Qs''], maxCards = 2\<rparr>
     (mount \<lparr>selectedCards = [], disabledCards = [''Qs''], maxCards = 2\<rparr> False)
     [OpenModal, ClickCard ''Ah'', ClickConfirm, ClickCard ''Qs'', ClickCard ''Kd'',
      ClickCard ''Ah'', ClickCard ''Ah'', ClickCard ''2c'', ClickConfirm, ClickCard ''3c'']
   = (\<lparr>isOpen = False, tempSelection = [''Kd'', ''Ah'']\<rparr>, [OnSelect [''Kd'', ''Ah''], OnClose]) \<and>
   int (length [''Kd'', ''Ah'']) = maxCards \<lparr>selectedCards = [], disabledCards = [''Qs''], maxCards = 2\<rparr>"
proof -
  let ?p = "\<lparr>selectedCards = [], disabledCards = [''Qs''], maxCards = 2\<rparr>"
  let ?evs = "[OpenModal, ClickCard ''Ah'', ClickConfirm, ClickCard ''Qs'', ClickCard ''Kd'',
      ClickCard ''Ah'', ClickCard ''Ah'', ClickCard ''2c'', ClickConfirm, ClickCard ''3c'']"
  have h: "selection_ok ?p (selectedCards ?p)" by (simp add: selection_ok_def)
  have e: "modal_run ?p (mount ?p False) ?evs
     = (\<lparr>isOpen = False, tempSelection = [''Kd'', ''Ah'']\<rparr>, [OnSelect [''Kd'', ''Ah''], OnClose])"
    by code_simp
  have m: "int (length [''Kd'', ''Ah'']) = maxCards ?p" by simp
  from selector_selection_invariant[OF h, of False ?evs] h e m show ?thesis by blast
qed

subsection \<open>The analysis request\<close>

text \<open>Claim C4. When the hero does not hold exactly two cards, \<open>handleAnalyze\<close> (in both
  revisions of the component) sets the error ``Please select 2 cards'', changes nothing else
  and issues no request, whatever the backend would answer.\<close>

theorem handleAnalyze_needs_two_cards:
  assumes "length (heroCards s) \<noteq> 2"
  shows "handleAnalyze analyzeSpot s = (s\<lparr>error := Some ''Please select 2 cards''\<rparr>, []) \<and>
         handleAnalyze_v1 analyzeSpot s = (s\<lparr>error := Some ''Please select 2 cards''\<rparr>, [])"
  using assms by (simp add: handleAnalyze_def handleAnalyze_v1_def)

theorem handleAnalyze_needs_two_cards_witness:
  "length (heroCards (initial_state\<lparr>heroCards := [''Ah'']\<rparr>)) \<noteq> 2 \<and>
   snd (handleAnalyze (\<lambda>request. Rejected None) (initial_state\<lparr>heroCards := [''Ah'']\<rparr>)) = [] \<and>
   error (fst (handleAnalyze (\<lambda>request. Rejected None) (initial_state\<lparr>heroCards := [''Ah'']\<rparr>)))
     = Some ''Please select 2 cards''"
proof -
  have h: "length (heroCards (initial_state\<lparr>heroCards := [''Ah'']\<rparr>)) \<noteq> 2" by simp
  show ?thesis
    using h handleAnalyze_needs_two_cards[OF h, of "\<lambda>request. Rejected None"] by simp
qed

subsection \<open>The stack range\<close>

text \<open>What the stack guard does establish: a stack whose numeric reading is below 1 or
  above 500 is rejected with the error and without a request; a request that is issued
  carries \<open>parseInt\<close> of the stored value; and when the stored value is a number (the
  initial 100 or a preset button) the stack sent lies between 1 and 500.\<close>

lemma handleAnalyze_rejects_stack:
  assumes "length (heroCards s) = 2"
    and "js_less (stack_number (stackSize s)) (Finite 1) \<or>
         js_less (Finite 500) (stack_number (stackSize s))"
  shows "handleAnalyze analyzeSpot s =
           (s\<lparr>error := Some ''Stack must be between 1 and 500 BB''\<rparr>, [])"
  using assms by (simp add: handleAnalyze_def)

lemma handleAnalyze_sends_parseInt:
  assumes "request \<in> set (snd (handleAnalyze analyzeSpot s))"
  shows "stack request = parseInt (stackSize s) \<and> length (heroCards s) = 2 \<and>
         \<not> js_less (stack_number (stackSize s)) (Finite 1) \<and>
         \<not> js_less (Finite 500) (stack_number (stackSize s))"
  using assms
  by (auto simp: handleAnalyze_def Let_def split: if_splits api_outcome.splits)

lemma handleAnalyze_number_in_range:
  assumes "request \<in> set (snd (handleAnalyze analyzeSpot s))"
    and "stackSize s = StackNumber n"
  shows "stack request = Finite (of_int n) \<and> 1 \<le> n \<and> n \<le> 500"
  using handleAnalyze_sends_parseInt[OF assms(1)] assms(2)
  by (auto simp: parseInt_def stack_number_def)

lemma stack_text_values:
  "string_to_number ''1000e-1'' = Finite 100" "parse_int_string ''1000e-1'' = Finite 1000"
  by code_simp+

text \<open>Claim C10 does not hold of the code when the field holds a text in exponent notation,
  which a number input accepts. The guard reads the text \<open>1000e-1\<close> as the number 100 and
  lets it pass; \<open>parseInt\<close> reads the digits up to the \<open>e\<close>, and the request goes out
  with the stack 1000, above 500.\<close>

theorem handleAnalyze_stack_out_of_range:
  "snd (handleAnalyze (\<lambda>request. Rejected None)
         (initial_state\<lparr>heroCards := [''Ah'', ''Kd''], stackSize := StackText ''1000e-1''\<rparr>)) =
     [\<lparr>hero_position = ''BTN'', villain_position = ''BB'', stack = Finite 1000,
       hand = [''Ah'', ''Kd'']\<rparr>] \<and>
   stack_number (StackText ''1000e-1'') = Finite 100 \<and>
   js_less (Finite 500) (Finite 1000)"
  by (simp add: handleAnalyze_def initial_state_def stack_number_def parseInt_def stack_text_values)

subsection \<open>The Advisor component\<close>

text \<open>Claim C5, as stated, fails while a request is in flight: PokerTable keeps the previous
  result and passes \<open>loading = true\<close>, and the component then renders the skeleton, without
  the indicator, although \<open>found_in_database\<close> is exactly \<open>false\<close>.\<close>

theorem Advisor_indicator_hidden_while_loading:
  "found_in_database \<lparr>action = Some ''fold'', found_in_database = JBool False\<rparr> = JBool False \<and>
   Advisor (Some \<lparr>action = Some ''fold'', found_in_database = JBool False\<rparr>) True = Skeleton"
  by (simp add: Advisor_def)

text \<open>Claim C5, amended. The component renders the indicator ``Default suggestion (hand not
  in database)'' exactly when it is not loading, there is a result, and the result's
  \<open>found_in_database\<close> is the boolean \<open>false\<close>; for every other value of the field
  (\<open>true\<close>, \<open>undefined\<close>, \<open>null\<close>, anything else), while loading and without a result the
  indicator is not rendered.\<close>

theorem Advisor_database_indicator:
  "(\<exists>panel. Advisor res busy = Recommendation panel \<and> database_indicator panel) \<longleftrightarrow>
   \<not> busy \<and> (\<exists>r. res = Some r \<and> found_in_database r = JBool False)"
  by (cases res) (auto simp: Advisor_def)

subsection \<open>The action presentation\<close>

text \<open>What the lookup does establish: each of the five known actions, in any letter case,
  has its colour class and its label; a missing action has the fold class and the label
  FOLD; and an ASCII action whose lower-case form is neither one of the five nor
  \<open>constructor\<close> nor \<open>__proto__\<close> has the fold class and its own upper-case form as label. No other
  inherited property can be reached, since their names contain capital letters.\<close>

lemma presentation_depends_on_action:
  "action r = action r' \<Longrightarrow> colorClass r = colorClass r' \<and> label r = label r'"
  by (simp add: colorClass_def label_def action_key_def)

lemma known_action_presentation:
  assumes "action r = Some a"
  shows "toLowerCase a = ''raise'' \<Longrightarrow>
           colorClass r = JStr ''from-green-600 to-emerald-700 border-green-500'' \<and>
           label r = JStr ''RAISE''"
    and "toLowerCase a = ''all_in'' \<Longrightarrow>
           colorClass r = JStr ''from-orange-600 to-amber-700 border-orange-500'' \<and>
           label r = JStr ''ALL-IN''"
    and "toLowerCase a = ''call'' \<Longrightarrow>
           colorClass r = JStr ''from-blue-600 to-cyan-700 border-blue-500'' \<and>
           label r = JStr ''CALL''"
    and "toLowerCase a = ''fold'' \<Longrightarrow>
           colorClass r = JStr ''from-red-900 to-gray-800 border-red-700'' \<and>
           label r = JStr ''FOLD''"
    and "toLowerCase a = ''check'' \<Longrightarrow>
           colorClass r = JStr ''from-gray-600 to-gray-700 border-gray-500'' \<and>
           label r = JStr ''CHECK''"
  using assms
  by (simp_all add: colorClass_def label_def action_key_def get_property_def js_or_def
      actionColors_def actionLabels_def)

lemma missing_action_presentation:
  assumes "action r = None"
  shows "colorClass r = JStr ''from-red-900 to-gray-800 border-red-700'' \<and> label r = JStr ''FOLD''"
  using assms
  by (simp add: colorClass_def label_def action_key_def get_property_def js_or_def
      actionColors_def actionLabels_def)

lemma lower_char_not_upper:
  "\<not> (65 \<le> (of_char (lower_char c) :: nat) \<and> (of_char (lower_char c) :: nat) \<le> 90)"
  by (auto simp: lower_char_def Let_def)

lemma toLowerCase_no_upper:
  "list_all (\<lambda>d. \<not> (65 \<le> (of_char d :: nat) \<and> (of_char d :: nat) \<le> 90)) (toLowerCase a)"
  using lower_char_not_upper by (induction a) (auto simp: toLowerCase_def)

lemma inherited_names_reached:
  assumes "map_of Object_prototype (toLowerCase a) \<noteq> None"
  shows "toLowerCase a = ''constructor'' \<or> toLowerCase a = ''__proto__''"
proof -
  have up: "\<And>k. toLowerCase a = k \<Longrightarrow>
     list_all (\<lambda>d. \<not> (65 \<le> (of_char d :: nat) \<and> (of_char d :: nat) \<le> 90)) k"
    using toLowerCase_no_upper[of a] by simp
  show ?thesis
    using assms up[of "toLowerCase a"]
    by (auto simp: Object_prototype_def split: if_splits dest!: up)
qed

lemma unrecognized_action_presentation:
  assumes "action r = Some a"
    and "toLowerCase a \<notin> {''raise'', ''all_in'', ''call'', ''fold'', ''check''}"
    and "toLowerCase a \<notin> {''constructor'', ''__proto__''}"
    and "list_all (\<lambda>c. (of_char c :: nat) < 128) a"
  shows "colorClass r = JStr ''from-red-900 to-gray-800 border-red-700'' \<and>
         label r = (if a = [] then JStr ''FOLD'' else JStr (toUpperCase a))"
proof -
  have own: "map_of actionColors (toLowerCase a) = None" "map_of actionLabels (toLowerCase a) = None"
    using assms(2) by (simp_all add: actionColors_def actionLabels_def)
  have inh: "map_of Object_prototype (toLowerCase a) = None"
    using assms(3) inherited_names_reached[of a] by (cases "map_of Object_prototype (toLowerCase a)") auto
  have e: "(toLowerCase a = []) = (a = [])" by (simp add: toLowerCase_def)
  have u: "(toUpperCase a = []) = (a = [])" by (simp add: toUpperCase_def)
  show ?thesis
  proof (cases "a = []")
    case True
    with assms(1) show ?thesis
      by (simp add: colorClass_def label_def action_key_def get_property_def js_or_def
          actionColors_def actionLabels_def toLowerCase_def)
  next
    case False
    with assms(1) own inh e u show ?thesis
      by (simp add: colorClass_def label_def action_key_def get_property_def js_or_def)
         (simp add: actionColors_def)
  qed
qed

text \<open>Claim C6 does not hold of the code for an action named like a property every object
  inherits. For \<open>constructor\<close> the lookup in \<open>actionColors\<close> finds the inherited
  \<open>Object\<close> function, which is truthy, so the fallback to the fold class is not taken:
  colour class and label are both that function.\<close>

theorem Advisor_inherited_action_name:
  "Advisor (Some \<lparr>action = Some ''constructor'', found_in_database = JBool True\<rparr>) False =
     Recommendation \<lparr>panel_colorClass = JFunction ''Object'', panel_label = JFunction ''Object'',
                     database_indicator = False\<rparr> \<and>
   get_property actionColors ''fold'' = JStr ''from-red-900 to-gray-800 border-red-700''"
  by code_simp

subsection \<open>The position selects\<close>

lemma filter_ids_removeAll:
  "map pos_id (filter (\<lambda>p. pos_id p \<noteq> h) ps) = removeAll h (map pos_id ps)"
  by (induction ps) auto

lemma positions_cases:
  "positions t = the (map_of TABLE_CONFIGS ''6-max'') \<or>
   positions t = the (map_of TABLE_CONFIGS ''9-max'') \<or>
   positions t = the (map_of TABLE_CONFIGS ''heads-up'')"
  by (simp add: positions_def TABLE_CONFIGS_def)

lemma positions_distinct_ids: "distinct (map pos_id (positions t))"
  using positions_cases[of t] by (auto simp: TABLE_CONFIGS_def)

text \<open>Claim C8. For every hero position and table, the ids offered by the villain select are
  the ids of the table's position list, in order, with the hero's id removed: the hero's
  id is never among the options, every other id of the table is, and since the ids of a
  table are distinct exactly one entry is missing when the hero sits at the table.\<close>

theorem villain_options_exclude_hero:
  "map pos_id (villain_options s) =
     removeAll (heroPosition s) (map pos_id (positions (tableSize s))) \<and>
   heroPosition s \<notin> set (map pos_id (villain_options s)) \<and>
   set (map pos_id (villain_options s)) =
     set (map pos_id (positions (tableSize s))) - {heroPosition s} \<and>
   length (villain_options s) =
     length (positions (tableSize s)) -
       (if heroPosition s \<in> set (map pos_id (positions (tableSize s))) then 1 else 0)"
proof -
  let ?ids = "map pos_id (positions (tableSize s))"
  have eq: "map pos_id (villain_options s) = removeAll (heroPosition s) ?ids"
    by (simp add: villain_options_def filter_ids_removeAll)
  have d: "distinct ?ids" by (rule positions_distinct_ids)
  have "length (removeAll (heroPosition s) ?ids) =
          length ?ids - (if heroPosition s \<in> set ?ids then 1 else 0)"
    using d by (simp add: distinct_remove1_removeAll[symmetric] length_remove1)
  then have len: "length (villain_options s) =
      length (positions (tableSize s)) - (if heroPosition s \<in> set ?ids then 1 else 0)"
    using eq by (metis length_map)
  show ?thesis using eq len by simp
qed

lemma has_position_iff: "has_position ps x \<longleftrightarrow> x \<in> set (map pos_id ps)"
  by (induction ps) (auto simp: has_position_def)

lemma reset_positions_nonempty:
  assumes "ps \<noteq> []"
  shows "\<exists>s'. reset_positions ps s = Inr s' \<and>
           tableSize s' = tableSize s \<and>
           heroPosition s' = (if heroPosition s \<in> set (map pos_id ps) then heroPosition s
                              else pos_id (ps ! 0)) \<and>
           villainPosition s' =
             (if villainPosition s \<in> set (map pos_id ps) then villainPosition s
              else if 1 < length ps \<and> pos_id (ps ! 1) \<noteq> [] then pos_id (ps ! 1)
              else pos_id (ps ! 0))"
proof (cases ps)
  case Nil
  with assms show ?thesis by simp
next
  case (Cons p rest)
  then show ?thesis
    by (cases rest)
       (auto simp: reset_positions_def reset_hero_def reset_villain_def has_position_iff)
qed

lemma table_configs_entries:
  assumes "map_of TABLE_CONFIGS newSize = Some ps"
  shows "1 < length ps \<and> [] \<notin> set (map pos_id ps)"
  using assms by (auto simp: TABLE_CONFIGS_def split: if_splits)

text \<open>Claim C9. For every table size of \<open>TABLE_CONFIGS\<close>, \<open>handleTableSizeChange\<close> returns
  (it does not throw), stores the new size, and leaves a hero position and a villain position
  that are both ids of the new table's list: a hero position that is on the new list is
  kept and one that is not becomes the list's first id; a villain position that is on
  the list is kept and one that is not becomes the second id (the first, were there no
  second).\<close>

theorem handleTableSizeChange_positions_valid:
  assumes "map_of TABLE_CONFIGS newSize = Some newPositions"
  shows "\<exists>s'. handleTableSizeChange newSize s = Inr s' \<and>
           tableSize s' = newSize \<and>
           heroPosition s' \<in> set (map pos_id newPositions) \<and>
           villainPosition s' \<in> set (map pos_id newPositions) \<and>
           heroPosition s' =
             (if heroPosition s \<in> set (map pos_id newPositions) then heroPosition s
              else pos_id (newPositions ! 0)) \<and>
           villainPosition s' =
             (if villainPosition s \<in> set (map pos_id newPositions) then villainPosition s
              else if 1 < length newPositions then pos_id (newPositions ! 1)
              else pos_id (newPositions ! 0))"
proof -
  have len: "1 < length newPositions" and ids: "[] \<notin> set (map pos_id newPositions)"
    using table_configs_entries[OF assms] by auto
  then have ne: "newPositions \<noteq> []" by auto
  have id1: "pos_id (newPositions ! 1) \<noteq> []"
    using len ids by (metis length_map nth_map nth_mem)
  have m0: "pos_id (newPositions ! 0) \<in> set (map pos_id newPositions)"
    using ne by (metis length_greater_0_conv length_map nth_map nth_mem)
  have m1: "pos_id (newPositions ! 1) \<in> set (map pos_id newPositions)"
    using len by (metis length_map nth_map nth_mem)
  obtain s' where s': "reset_positions newPositions (s\<lparr>tableSize := newSize\<rparr>) = Inr s'"
    and ts: "tableSize s' = newSize"
    and h: "heroPosition s' = (if heroPosition s \<in> set (map pos_id newPositions)
               then heroPosition s else pos_id (newPositions ! 0))"
    and v: "villainPosition s' =
             (if villainPosition s \<in> set (map pos_id newPositions) then villainPosition s
              else if 1 < length newPositions \<and> pos_id (newPositions ! 1) \<noteq> []
                   then pos_id (newPositions ! 1)
              else pos_id (newPositions ! 0))"
    using reset_positions_nonempty[OF ne, of "s\<lparr>tableSize := newSize\<rparr>"] by auto
  have "handleTableSizeChange newSize s = Inr s'"
    using assms s' by (simp add: handleTableSizeChange_def)
  moreover have "heroPosition s' \<in> set (map pos_id newPositions)"
    using h m0 by (simp split: if_splits)
  moreover have "villainPosition s' \<in> set (map pos_id newPositions)"
    using v m0 m1 by (simp split: if_splits)
  ultimately show ?thesis using ts h v len id1 by simp
qed

theorem handleTableSizeChange_positions_valid_witness:
  "map_of TABLE_CONFIGS ''heads-up'' =
     Some [\<lparr>pos_id = ''BTN'', pos_label = ''BTN/SB'', pos_angle = 270\<rparr>,
           \<lparr>pos_id = ''BB'', pos_label = ''BB'', pos_angle = 90\<rparr>] \<and>
   handleTableSizeChange ''heads-up''
     (initial_state\<lparr>heroPosition := ''UTG'', villainPosition := ''CO''\<rparr>) =
     Inr (initial_state\<lparr>tableSize := ''heads-up'', heroPosition := ''BTN'',
                        villainPosition := ''BB''\<rparr>)"
proof -
  have h: "map_of TABLE_CONFIGS ''heads-up'' =
     Some [\<lparr>pos_id = ''BTN'', pos_label = ''BTN/SB'', pos_angle = 270\<rparr>,
           \<lparr>pos_id = ''BB'', pos_label = ''BB'', pos_angle = 90\<rparr>]"
    by (simp add: TABLE_CONFIGS_def)
  have e: "handleTableSizeChange ''heads-up''
     (initial_state\<lparr>heroPosition := ''UTG'', villainPosition := ''CO''\<rparr>) =
     Inr (initial_state\<lparr>tableSize := ''heads-up'', heroPosition := ''BTN'',
                        villainPosition := ''BB''\<rparr>)"
    by (simp add: handleTableSizeChange_def h reset_positions_def reset_hero_def
        reset_villain_def has_position_def initial_state_def)
  from handleTableSizeChange_positions_valid[OF h,
      of "initial_state\<lparr>heroPosition := ''UTG'', villainPosition := ''CO''\<rparr>"] h e
  show ?thesis by blast
qed

subsection \<open>The equity engine\<close>






lemma equity_engine_returns:
  assumes "validate req = Inr parsed"
  shows "\<exists>results. equity_engine cfg draw req = Inr results"
  using assms by (cases parsed) (simp add: equity_engine_def Let_def)







end
